theory Spec2Isabelle
  imports Main "HOL-Library.Word"
begin

unbundle bit_operations_syntax

section \<open>Shared types of the health checker\<close>

text \<open>
  Modelled from the spec: the declaration of \<^verbatim>\<open>types.State\<close> is not among the sources. The
  spec gives the probe verdict as one of Healthy, Unhealthy and Unknown, and the code uses
  \<^verbatim>\<open>types.Unknown\<close>, \<^verbatim>\<open>types.Healthy\<close> and \<^verbatim>\<open>types.Unhealthy\<close>, also as the signal of an
  actioner (Up is \<^verbatim>\<open>Healthy\<close>, Down is \<^verbatim>\<open>Unhealthy\<close>).
\<close>

datatype State = Unknown | Healthy | Unhealthy

text \<open>\<^verbatim>\<open>time.Duration\<close> counts nanoseconds; the checks only compare it with zero and
  subtract the time already spent.\<close>

type_synonym Duration = int

type_synonym byte = "8 word"

text \<open>
  \<^verbatim>\<open>utils.L3L4Addr\<close>: an IP (a \<^verbatim>\<open>net.IP\<close>, that is a byte slice), a port (\<^verbatim>\<open>uint16\<close>) and a
  protocol (\<^verbatim>\<open>IPProto\<close>, a \<^verbatim>\<open>uint16\<close>).
\<close>

type_synonym IPProto = "16 word"

record L3L4Addr =
  IP :: "byte list"
  Port :: "16 word"
  Proto :: IPProto

text \<open>Go's conversions \<^verbatim>\<open>[]byte(s)\<close> and \<^verbatim>\<open>string(b)\<close>.\<close>

definition bytes_of_string :: "string \<Rightarrow> byte list" where
  "bytes_of_string s = map of_char s"

definition string_of_bytes :: "byte list \<Rightarrow> string" where
  "string_of_bytes b = map (\<lambda>w. char_of (unat w)) b"

section \<open>checker.go: constants\<close>

definition ParamProxyProto :: string where
  "ParamProxyProto = ''proxy-protocol''"

definition proxyProtoV1LocalCmd :: string where
  "proxyProtoV1LocalCmd = ''PROXY UNKNOWN'' @ [CHR 0x0D, CHR 0x0A]"

definition proxyProtoV2LocalCmd :: "byte list" where
  "proxyProtoV2LocalCmd =
     [0x0D, 0x0A, 0x0D, 0x0A, 0x00, 0x0D, 0x0A, 0x51,
      0x55, 0x49, 0x54, 0x0A, 0x20, 0x00, 0x00, 0x00]"

section \<open>Errors\<close>

text \<open>
  One constructor for each \<^verbatim>\<open>fmt.Errorf\<close> site of the checkers; \<open>ForeignError\<close> stands for an
  error value produced by code outside the modelled files.
\<close>

datatype error =
    ZeroTimeoutUDP
  | ZeroTimeoutUDPPing
  | EmptyParam string
  | InvalidParamValue string string
  | UnsupportedParams "string list"
  | ValidationFailed error
  | ForeignError string

text \<open>
  An error returned by the \<^verbatim>\<open>net\<close> package, reduced to what \<^verbatim>\<open>Check\<close> asks of it: whether it
  implements \<^verbatim>\<open>net.Error\<close> and, if so, what its \<^verbatim>\<open>Timeout()\<close> method answers.
\<close>

datatype neterror = NetError (is_net_Error: bool) (Timeout: bool)

section \<open>udp\_checker.go\<close>

record UDPChecker =
  send :: string
  receive :: string
  proxyProto :: string

text \<open>
  The network as \<^verbatim>\<open>Check\<close> meets it: the outcome of each call on the socket. A successful
  read delivers one datagram; \<^verbatim>\<open>ReadFrom\<close> copies at most \<^verbatim>\<open>len(buf)\<close> bytes of it.
  \<^verbatim>\<open>utils.WriteFull\<close> calls \<^verbatim>\<open>conn.Write\<close> until the slice is used up; a UDP socket sends a
  datagram whole or fails, so on a non-empty slice that is one write, whose error is part
  of this record.
\<close>

record udp_env =
  dial_err :: "neterror option"
  is_UDPConn :: bool
  set_deadline_err :: "neterror option"
  proxy_write_err :: "neterror option"
  send_err :: "neterror option"
  read_res :: "neterror + byte list"

text \<open>The calls made on the network, in order, each with its outcome.\<close>

datatype conn_event =
    EvDial L3L4Addr Duration "neterror option"
  | EvSetDeadline Duration "neterror option"
  | EvWriteFull "byte list" "neterror option"
  | EvWrite "byte list" "neterror option"
  | EvReadFrom nat "neterror + byte list"
  | EvClose

type_synonym check_result = "(State \<times> error option) \<times> conn_event list"

text \<open>Lines 105--131: the read and the comparison with \<^verbatim>\<open>receive\<close>.\<close>

definition Check_read :: "UDPChecker \<Rightarrow> udp_env \<Rightarrow> check_result" where
  "Check_read c env =
     (let buflen = length (receive c);
          ev = EvReadFrom buflen (read_res env)
      in case read_res env of
           Inl err \<Rightarrow>
             if length (send c) = 0 \<and> length (receive c) = 0
                \<and> is_net_Error err \<and> Timeout err
             then ((Healthy, None), [ev])
             else ((Unhealthy, None), [ev])
         | Inr dgram \<Rightarrow>
             let got = string_of_bytes (take buflen dgram)
             in if got \<noteq> receive c then ((Unhealthy, None), [ev])
                else ((Healthy, None), [ev]))"

text \<open>Lines 95--103: the payload, or a zero-length datagram.\<close>

definition Check_send :: "UDPChecker \<Rightarrow> udp_env \<Rightarrow> check_result" where
  "Check_send c env =
     (let ev = (if length (send c) > 0
                then EvWriteFull (bytes_of_string (send c)) (send_err env)
                else EvWrite [] (send_err env))
      in case send_err env of
           Some e \<Rightarrow> ((Unhealthy, None), [ev])
         | None \<Rightarrow> (let (r, evs) = Check_read c env in (r, ev # evs)))"

text \<open>Lines 87--93: the PROXY protocol v2 preamble.\<close>

definition Check_proxy :: "UDPChecker \<Rightarrow> udp_env \<Rightarrow> check_result" where
  "Check_proxy c env =
     (if ''v2'' = proxyProto c then
        (case proxy_write_err env of
           Some e \<Rightarrow> ((Unhealthy, None), [EvWriteFull proxyProtoV2LocalCmd (Some e)])
         | None \<Rightarrow> (let (r, evs) = Check_send c env
                    in (r, EvWriteFull proxyProtoV2LocalCmd None # evs)))
      else Check_send c env)"

text \<open>Lines 75--85: the type assertion and the deadline \<^verbatim>\<open>start.Add(timeout)\<close>.\<close>

definition Check_conn :: "UDPChecker \<Rightarrow> udp_env \<Rightarrow> Duration \<Rightarrow> check_result" where
  "Check_conn c env timeout =
     (if \<not> is_UDPConn env then ((Unhealthy, None), [])
      else case set_deadline_err env of
             Some e \<Rightarrow> ((Unhealthy, None), [EvSetDeadline timeout (Some e)])
           | None \<Rightarrow> (let (r, evs) = Check_proxy c env
                      in (r, EvSetDeadline timeout None # evs)))"

text \<open>
  \<^verbatim>\<open>UDPChecker.Check\<close>. The deferred \<^verbatim>\<open>conn.Close()\<close> runs on every path after a successful
  dial.
\<close>

definition UDPChecker_Check ::
    "UDPChecker \<Rightarrow> udp_env \<Rightarrow> L3L4Addr \<Rightarrow> Duration \<Rightarrow> check_result" where
  "UDPChecker_Check c env target timeout =
     (if timeout \<le> 0 then ((Unknown, Some ZeroTimeoutUDP), [])
      else case dial_err env of
             Some e \<Rightarrow> ((Unhealthy, None), [EvDial target timeout (Some e)])
           | None \<Rightarrow> (let (r, evs) = Check_conn c env timeout
                      in (r, EvDial target timeout None # evs @ [EvClose])))"

text \<open>An event whose call returned an error.\<close>

fun failed :: "conn_event \<Rightarrow> bool" where
  "failed (EvDial _ _ r) = (r \<noteq> None)"
| "failed (EvSetDeadline _ r) = (r \<noteq> None)"
| "failed (EvWriteFull _ r) = (r \<noteq> None)"
| "failed (EvWrite _ r) = (r \<noteq> None)"
| "failed (EvReadFrom _ r) = (case r of Inl _ \<Rightarrow> True | Inr _ \<Rightarrow> False)"
| "failed EvClose = False"

text \<open>A read that failed with an error whose \<^verbatim>\<open>Timeout()\<close> is true.\<close>

fun read_timed_out :: "conn_event \<Rightarrow> bool" where
  "read_timed_out (EvReadFrom _ (Inl err)) = (is_net_Error err \<and> Timeout err)"
| "read_timed_out _ = False"

text \<open>The datagrams written on the connection, in order.\<close>

fun written :: "conn_event list \<Rightarrow> byte list list" where
  "written [] = []"
| "written (EvWriteFull b _ # evs) = b # written evs"
| "written (EvWrite b _ # evs) = b # written evs"
| "written (_ # evs) = written evs"

section \<open>strings.ToLower\<close>

text \<open>
  Go's \<^verbatim>\<open>strings.ToLower\<close> has two paths. A string of ASCII bytes only is mapped byte by
  byte, \<^verbatim>\<open>'A'..'Z'\<close> to \<^verbatim>\<open>'a'..'z'\<close>. Any other string goes through
  \<^verbatim>\<open>strings.Map(unicode.ToLower, s)\<close>, which depends on the Unicode tables; that path is the
  parameter \<open>U\<close> of the model, so that every result below holds whatever those tables say.
\<close>

definition isASCII :: "string \<Rightarrow> bool" where
  "isASCII s = list_all (\<lambda>c. (of_char c :: nat) < 0x80) s"

definition isUpper :: "char \<Rightarrow> bool" where
  "isUpper c = (of_char CHR ''A'' \<le> (of_char c :: nat) \<and> (of_char c :: nat) \<le> of_char CHR ''Z'')"

definition lower_byte :: "char \<Rightarrow> char" where
  "lower_byte c = (if isUpper c then char_of ((of_char c :: nat) + 32) else c)"

definition strings_ToLower :: "(string \<Rightarrow> string) \<Rightarrow> string \<Rightarrow> string" where
  "strings_ToLower U s = (if isASCII s then map lower_byte s else U s)"

subsection \<open>The non-ASCII path at work\<close>

text \<open>
  \<^verbatim>\<open>strings.Map(unicode.ToLower, s)\<close> decodes the string rune by rune, maps each rune and
  encodes the result. Decoding follows \<^verbatim>\<open>utf8.DecodeRuneInString\<close>: a byte that starts no valid
  sequence is the rune \<^verbatim>\<open>U+FFFD\<close> of width one.
\<close>

definition cont_byte :: "nat \<Rightarrow> bool" where
  "cont_byte b = (0x80 \<le> b \<and> b \<le> 0xBF)"

fun decode_runes :: "nat list \<Rightarrow> nat list" where
  "decode_runes [] = []"
| "decode_runes (b0 # bs) =
     (if b0 < 0x80 then b0 # decode_runes bs
      else if 0xC2 \<le> b0 \<and> b0 \<le> 0xDF then
        (case bs of
           b1 # r \<Rightarrow>
             if cont_byte b1 then ((b0 mod 0x20) * 0x40 + b1 mod 0x40) # decode_runes r
             else 0xFFFD # decode_runes bs
         | _ \<Rightarrow> 0xFFFD # decode_runes bs)
      else if 0xE0 \<le> b0 \<and> b0 \<le> 0xEF then
        (case bs of
           b1 # b2 # r \<Rightarrow>
             if (if b0 = 0xE0 then 0xA0 else 0x80) \<le> b1
                \<and> b1 \<le> (if b0 = 0xED then 0x9F else 0xBF) \<and> cont_byte b2
             then ((b0 mod 0x10) * 0x1000 + (b1 mod 0x40) * 0x40 + b2 mod 0x40) # decode_runes r
             else 0xFFFD # decode_runes bs
         | _ \<Rightarrow> 0xFFFD # decode_runes bs)
      else if 0xF0 \<le> b0 \<and> b0 \<le> 0xF4 then
        (case bs of
           b1 # b2 # b3 # r \<Rightarrow>
             if (if b0 = 0xF0 then 0x90 else 0x80) \<le> b1
                \<and> b1 \<le> (if b0 = 0xF4 then 0x8F else 0xBF) \<and> cont_byte b2 \<and> cont_byte b3
             then ((b0 mod 0x08) * 0x40000 + (b1 mod 0x40) * 0x1000 + (b2 mod 0x40) * 0x40
                   + b3 mod 0x40) # decode_runes r
             else 0xFFFD # decode_runes bs
         | _ \<Rightarrow> 0xFFFD # decode_runes bs)
      else 0xFFFD # decode_runes bs)"

text \<open>\<^verbatim>\<open>utf8.EncodeRune\<close>.\<close>

definition encode_rune :: "nat \<Rightarrow> nat list" where
  "encode_rune r =
     (if r < 0x80 then [r]
      else if r < 0x800 then [0xC0 + r div 0x40, 0x80 + r mod 0x40]
      else if (0xD800 \<le> r \<and> r \<le> 0xDFFF) \<or> r > 0x10FFFF then [0xEF, 0xBF, 0xBD]
      else if r < 0x10000 then
        [0xE0 + r div 0x1000, 0x80 + (r div 0x40) mod 0x40, 0x80 + r mod 0x40]
      else [0xF0 + r div 0x40000, 0x80 + (r div 0x1000) mod 0x40,
            0x80 + (r div 0x40) mod 0x40, 0x80 + r mod 0x40])"

text \<open>
  \<^verbatim>\<open>unicode.ToLower\<close> on the runes up to \<^verbatim>\<open>U+00FF\<close> and on \<^verbatim>\<open>U+0130\<close> (capital I with dot
  above), whose entry in Go's case table is \<^verbatim>\<open>{0x0130, 0x0130, d{0, -199, 0}}\<close>: its lower
  case is \<^verbatim>\<open>U+0069\<close>, the letter i. The other runes are left as they are here, which is not
  what Go's table does for the capital letters beyond \<^verbatim>\<open>U+00FF\<close>; only the worked example on
  \<^verbatim>\<open>U+0130\<close> uses this function, the general results take the non-ASCII path as the
  parameter \<open>U\<close>.
\<close>

definition unicode_ToLower :: "nat \<Rightarrow> nat" where
  "unicode_ToLower r =
     (if 0x41 \<le> r \<and> r \<le> 0x5A then r + 32
      else if 0xC0 \<le> r \<and> r \<le> 0xD6 then r + 32
      else if 0xD8 \<le> r \<and> r \<le> 0xDE then r + 32
      else if r = 0x130 then r - 199
      else r)"

definition Map_ToLower :: "string \<Rightarrow> string" where
  "Map_ToLower s =
     map char_of (concat (map (\<lambda>r. encode_rune (unicode_ToLower r)) (decode_runes (map of_char s))))"

text \<open>
  Two bytes that are the same up to the case of an ASCII letter, and two strings that are
  so byte by byte: what it means for an ASCII string to be another one "case-insensitively".
\<close>

definition same_letter :: "char \<Rightarrow> char \<Rightarrow> bool" where
  "same_letter x y =
     (x = y \<or> (isUpper x \<and> (of_char y :: nat) = of_char x + 32)
            \<or> (isUpper y \<and> (of_char x :: nat) = of_char y + 32))"

definition caseless_eq :: "string \<Rightarrow> string \<Rightarrow> bool" where
  "caseless_eq a b = list_all2 same_letter a b"

section \<open>udp\_checker.go: validate and create\<close>

text \<open>
  A \<^verbatim>\<open>map[string]string\<close> is given by its entries in the order in which \<^verbatim>\<open>range\<close> happens to
  visit them (Go leaves that order open), with pairwise distinct keys; \<^verbatim>\<open>params[k]\<close> is
  \<open>map_of\<close>.
\<close>

type_synonym params = "(string \<times> string) list"

text \<open>The \<^verbatim>\<open>range\<close> loop of \<^verbatim>\<open>validate\<close>: an early return is \<open>Inl\<close>, the end of the loop hands
  back the keys collected in \<^verbatim>\<open>unsupported\<close>.\<close>

fun validate_loop :: "(string \<Rightarrow> string) \<Rightarrow> params \<Rightarrow> string list \<Rightarrow> error + string list" where
  "validate_loop U [] unsupported = Inr unsupported"
| "validate_loop U ((param, val) # rest) unsupported =
     (if param = ''send'' then
        (if length val = 0 then Inl (EmptyParam param)
         else validate_loop U rest unsupported)
      else if param = ''receive'' then
        (if length val = 0 then Inl (EmptyParam param)
         else validate_loop U rest unsupported)
      else if param = ParamProxyProto then
        (if strings_ToLower U val \<noteq> ''v2'' then Inl (InvalidParamValue param val)
         else validate_loop U rest unsupported)
      else validate_loop U rest (unsupported @ [param]))"

definition UDPChecker_validate :: "(string \<Rightarrow> string) \<Rightarrow> params \<Rightarrow> error option" where
  "UDPChecker_validate U params =
     (case validate_loop U params [] of
        Inl err \<Rightarrow> Some err
      | Inr unsupported \<Rightarrow>
          if length unsupported > 0 then Some (UnsupportedParams unsupported) else None)"

text \<open>
  \<^verbatim>\<open>create\<close> has a pointer receiver \<^verbatim>\<open>c\<close> (the prototype held by the registry) and allocates
  a new \<^verbatim>\<open>checker\<close>. The model returns both: the receiver as the call leaves it, and the
  returned error or instance.
\<close>

definition UDPChecker_create ::
    "(string \<Rightarrow> string) \<Rightarrow> UDPChecker \<Rightarrow> params \<Rightarrow> UDPChecker \<times> (error + UDPChecker)" where
  "UDPChecker_create U c params =
     (case UDPChecker_validate U params of
        Some err \<Rightarrow> (c, Inl (ValidationFailed err))
      | None \<Rightarrow>
          (let checker = \<lparr>send = [], receive = [], proxyProto = []\<rparr>;
               c1 = (case map_of params ''send'' of
                       Some val \<Rightarrow> c\<lparr>send := val\<rparr> | None \<Rightarrow> c);
               c2 = (case map_of params ''receive'' of
                       Some val \<Rightarrow> c1\<lparr>receive := val\<rparr> | None \<Rightarrow> c1);
               c3 = (case map_of params ParamProxyProto of
                       Some val \<Rightarrow> c2\<lparr>proxyProto := val\<rparr> | None \<Rightarrow> c2)
           in (c3, Inr checker)))"

section \<open>checker.go: method names\<close>

type_synonym Method = "16 word"

definition CheckMethodNone :: Method where "CheckMethodNone = 1"
definition CheckMethodTCP :: Method where "CheckMethodTCP = 2"
definition CheckMethodUDP :: Method where "CheckMethodUDP = 3"
definition CheckMethodPing :: Method where "CheckMethodPing = 4"
definition CheckMethodUDPPing :: Method where "CheckMethodUDPPing = 5"
definition CheckMethodHTTP :: Method where "CheckMethodHTTP = 6"
definition CheckMethodAuto :: Method where "CheckMethodAuto = 10000"
definition CheckMethodPassive :: Method where "CheckMethodPassive = 65535"

definition ParseMethod :: "(string \<Rightarrow> string) \<Rightarrow> string \<Rightarrow> Method" where
  "ParseMethod U name0 =
     (let name = strings_ToLower U name0
      in if name = ''tcp'' then CheckMethodTCP
         else if name = ''udp'' then CheckMethodUDP
         else if name = ''ping'' then CheckMethodPing
         else if name = ''udpping'' then CheckMethodUDPPing
         else if name = ''http'' then CheckMethodHTTP
         else if name = ''none'' then CheckMethodNone
         else if name = ''auto'' then CheckMethodAuto
         else 0)"

text \<open>The verb \<^verbatim>\<open>%d\<close> of \<^verbatim>\<open>fmt.Sprintf\<close> on an unsigned value.\<close>

function decimal :: "nat \<Rightarrow> string" where
  "decimal n =
     (if n < 10 then [char_of (of_char CHR ''0'' + n)]
      else decimal (n div 10) @ [char_of (of_char CHR ''0'' + n mod 10)])"
  by pat_completeness auto
termination
  by (relation "measure (\<lambda>n. n)") auto

declare decimal.simps [simp del]

definition Method_String :: "Method \<Rightarrow> string" where
  "Method_String m =
     (if m = CheckMethodTCP then ''tcp''
      else if m = CheckMethodUDP then ''udp''
      else if m = CheckMethodPing then ''ping''
      else if m = CheckMethodUDPPing then ''udpping''
      else if m = CheckMethodNone then ''none''
      else if m = CheckMethodHTTP then ''http''
      else if m = CheckMethodPassive then ''passive''
      else if m = CheckMethodAuto then ''auto''
      else ''unknown('' @ decimal (unat m) @ '')'')"

text \<open>The seven names the claim is about.\<close>

definition method_names :: "string list" where
  "method_names = [''none'', ''tcp'', ''udp'', ''ping'', ''udpping'', ''http'', ''auto'']"

section \<open>udpping\_checker.go\<close>

text \<open>
  \<^verbatim>\<open>UDPPingChecker\<close> embeds a \<^verbatim>\<open>*PingChecker\<close> and a \<^verbatim>\<open>*UDPChecker\<close>. The file of the ping
  checker is not among the sources, so the embedded ping checker is represented by its
  \<^verbatim>\<open>Check\<close> method, an arbitrary function of the target and the timeout.
\<close>

record UDPPingChecker =
  pingChecker :: "L3L4Addr \<Rightarrow> Duration \<Rightarrow> State \<times> error option"
  udpChecker :: UDPChecker

text \<open>Which of the two embedded checks ran, and with what timeout.\<close>

datatype sub_check = RanPing L3L4Addr Duration | RanUDP L3L4Addr Duration

text \<open>
  \<^verbatim>\<open>UDPPingChecker.Check\<close>. \<open>elapsed\<close> is the time between \<^verbatim>\<open>start := time.Now()\<close> and the
  evaluation of \<^verbatim>\<open>time.Until(start.Add(timeout))\<close>, which therefore is \<open>timeout - elapsed\<close>.
\<close>

definition UDPPingChecker_Check ::
    "UDPPingChecker \<Rightarrow> udp_env \<Rightarrow> Duration \<Rightarrow> L3L4Addr \<Rightarrow> Duration
       \<Rightarrow> (State \<times> error option) \<times> sub_check list \<times> conn_event list" where
  "UDPPingChecker_Check c env elapsed target timeout =
     (if timeout \<le> 0 then ((Unknown, Some ZeroTimeoutUDPPing), [], [])
      else
        (let (state, err) = pingChecker c target timeout
         in if err \<noteq> None then ((Unknown, err), [RanPing target timeout], [])
            else if state = Unhealthy then ((Unhealthy, None), [RanPing target timeout], [])
            else
              (let remaining = timeout - elapsed;
                   (r, evs) = UDPChecker_Check (udpChecker c) env target remaining
               in (r, [RanPing target timeout, RanUDP target remaining], evs))))"

text \<open>A ping check with a fixed answer.\<close>

definition ping_always :: "State \<Rightarrow> error option \<Rightarrow> L3L4Addr \<Rightarrow> Duration \<Rightarrow> State \<times> error option" where
  "ping_always st err target timeout = (st, err)"

section \<open>The KernelRouteAddDel actioner\<close>

subsection \<open>What the actioner uses of the Go library\<close>

text \<open>\<^verbatim>\<open>net.IP.To4\<close>: a 4-byte address, or the last four bytes of a 16-byte IPv4-mapped one;
  \<^verbatim>\<open>nil\<close> otherwise.\<close>

definition To4 :: "byte list \<Rightarrow> byte list option" where
  "To4 ip =
     (if length ip = 4 then Some ip
      else if length ip = 16 \<and> list_all (\<lambda>b. b = 0) (take 10 ip)
              \<and> ip ! 10 = 0xff \<and> ip ! 11 = 0xff
      then Some (drop 12 ip)
      else None)"

text \<open>\<^verbatim>\<open>net.CIDRMask(ones, bits)\<close>; the \<^verbatim>\<open>nil\<close> mask is the empty list.\<close>

fun mask_bytes :: "nat \<Rightarrow> nat \<Rightarrow> byte list" where
  "mask_bytes 0 n = []"
| "mask_bytes (Suc l) n =
     (if n \<ge> 8 then 0xff # mask_bytes l (n - 8)
      else NOT (drop_bit n 0xff) # mask_bytes l 0)"

definition CIDRMask :: "int \<Rightarrow> int \<Rightarrow> byte list" where
  "CIDRMask ones bits =
     (if bits \<noteq> 8 * 4 \<and> bits \<noteq> 8 * 16 then []
      else if ones < 0 \<or> ones > bits then []
      else mask_bytes (nat (bits div 8)) (nat ones))"

text \<open>\<^verbatim>\<open>strings.Contains\<close>.\<close>

primrec strings_Contains :: "string \<Rightarrow> string \<Rightarrow> bool" where
  "strings_Contains [] substr = (substr = [])"
| "strings_Contains (c # s) substr =
     (take (length substr) (c # s) = substr \<or> strings_Contains s substr)"

text \<open>
  An error coming back from netlink, reduced to what the actioner asks of it: the
  \<^verbatim>\<open>syscall.Errno\<close> values along its \<^verbatim>\<open>Unwrap\<close> chain (what \<^verbatim>\<open>errors.Is\<close> compares with) and
  its message \<^verbatim>\<open>Error()\<close>.
\<close>

datatype kerror = KError (errnos: "nat list") (Error: string)

definition EEXIST :: nat where "EEXIST = 0x11"
definition ENOENT :: nat where "ENOENT = 0x2"
definition ESRCH :: nat where "ESRCH = 0x3"

record IPNet =
  net_IP :: "byte list"
  net_Mask :: "byte list"

record Link =
  Index :: int

record Route =
  LinkIndex :: int
  Dst :: IPNet

text \<open>
  The netlink calls of the actioner, over a kernel state of any type \<open>'k\<close>: each call
  answers with an error or with success and leaves a new kernel state.
\<close>

record 'k netlink =
  LinkByName :: "string \<Rightarrow> 'k \<Rightarrow> kerror + Link"
  AddrAdd :: "Link \<Rightarrow> IPNet \<Rightarrow> 'k \<Rightarrow> kerror option \<times> 'k"
  AddrDel :: "Link \<Rightarrow> IPNet \<Rightarrow> 'k \<Rightarrow> kerror option \<times> 'k"
  RouteAdd :: "Route \<Rightarrow> 'k \<Rightarrow> kerror option \<times> 'k"
  RouteDel :: "Route \<Rightarrow> 'k \<Rightarrow> kerror option \<times> 'k"

text \<open>The netlink calls made, in order, each with its arguments and its outcome.\<close>

datatype kcall =
    CallLinkByName string "kerror + Link"
  | CallAddrAdd Link IPNet "kerror option"
  | CallAddrDel Link IPNet "kerror option"
  | CallRouteAdd Route "kerror option"
  | CallRouteDel Route "kerror option"

subsection \<open>The actioner\<close>

record KernelRouteAction =
  target :: L3L4Addr
  ifname :: string
  withRoute :: bool

datatype act_error =
    ZeroTimeoutAct
  | FailedLinkByName kerror
  | FailedAddAddress kerror
  | FailedAddRoute kerror
  | FailedDelAddress kerror
  | FailedDelRoute kerror
  | DeadlineExceeded

definition isExistError :: "kerror \<Rightarrow> bool" where
  "isExistError err = (EEXIST \<in> set (errnos err))"

definition isNotExistError :: "(string \<Rightarrow> string) \<Rightarrow> kerror \<Rightarrow> bool" where
  "isNotExistError U err =
     (ENOENT \<in> set (errnos err) \<or> ESRCH \<in> set (errnos err)
      \<or> strings_Contains (strings_ToLower U (Error err)) ''cannot assign requested address'')"

type_synonym 'k act_result = "act_error option \<times> 'k \<times> kcall list"

text \<open>Lines 322--333: the host route of the branch that adds.\<close>

definition Act_add_route ::
    "'k netlink \<Rightarrow> KernelRouteAction \<Rightarrow> Link \<Rightarrow> IPNet \<Rightarrow> 'k \<Rightarrow> kcall list \<Rightarrow> 'k act_result" where
  "Act_add_route K a link ipNet k log =
     (if withRoute a then
        (let route = \<lparr>LinkIndex = Index link, Dst = ipNet\<rparr>;
             (r, k') = RouteAdd K route k;
             log' = log @ [CallRouteAdd route r]
         in case r of
              None \<Rightarrow> (None, k', log')
            | Some err \<Rightarrow>
                if \<not> isExistError err then (Some (FailedAddRoute err), k', log')
                else (None, k', log'))
      else (None, k, log))"

text \<open>Lines 312--333 of the goroutine: the branch that adds.\<close>

definition Act_add :: "'k netlink \<Rightarrow> KernelRouteAction \<Rightarrow> Link \<Rightarrow> IPNet \<Rightarrow> 'k \<Rightarrow> 'k act_result" where
  "Act_add K a link ipNet k =
     (let (r, k') = AddrAdd K link ipNet k;
          log = [CallAddrAdd link ipNet r]
      in case r of
           None \<Rightarrow> Act_add_route K a link ipNet k' log
         | Some err \<Rightarrow>
             if isExistError err then Act_add_route K a link ipNet k' log
             else (Some (FailedAddAddress err), k', log))"

text \<open>Lines 344--355: the host route of the branch that deletes.\<close>

definition Act_del_route ::
    "(string \<Rightarrow> string) \<Rightarrow> 'k netlink \<Rightarrow> KernelRouteAction \<Rightarrow> Link \<Rightarrow> IPNet \<Rightarrow> 'k \<Rightarrow> kcall list
       \<Rightarrow> 'k act_result" where
  "Act_del_route U K a link ipNet k log =
     (if withRoute a then
        (let route = \<lparr>LinkIndex = Index link, Dst = ipNet\<rparr>;
             (r, k') = RouteDel K route k;
             log' = log @ [CallRouteDel route r]
         in case r of
              None \<Rightarrow> (None, k', log')
            | Some err \<Rightarrow>
                if \<not> isNotExistError U err then (Some (FailedDelRoute err), k', log')
                else (None, k', log'))
      else (None, k, log))"

text \<open>Lines 334--356: the branch that deletes.\<close>

definition Act_del ::
    "(string \<Rightarrow> string) \<Rightarrow> 'k netlink \<Rightarrow> KernelRouteAction \<Rightarrow> Link \<Rightarrow> IPNet \<Rightarrow> 'k \<Rightarrow> 'k act_result" where
  "Act_del U K a link ipNet k =
     (let (r, k') = AddrDel K link ipNet k;
          log = [CallAddrDel link ipNet r]
      in case r of
           None \<Rightarrow> Act_del_route U K a link ipNet k' log
         | Some err \<Rightarrow>
             if isNotExistError U err then Act_del_route U K a link ipNet k' log
             else (Some (FailedDelAddress err), k', log))"

text \<open>Lines 282--358: the goroutine, whose result is what it sends on \<^verbatim>\<open>done\<close>.\<close>

definition Act_body ::
    "(string \<Rightarrow> string) \<Rightarrow> 'k netlink \<Rightarrow> KernelRouteAction \<Rightarrow> State \<Rightarrow> 'k \<Rightarrow> 'k act_result" where
  "Act_body U K a signal k =
     (let addr = IP (target a);
          lr = LinkByName K (ifname a) k
      in case lr of
           Inl err \<Rightarrow> (Some (FailedLinkByName err), k, [CallLinkByName (ifname a) lr])
         | Inr link \<Rightarrow>
             (let ipNet = (if To4 addr \<noteq> None
                           then \<lparr>net_IP = addr, net_Mask = CIDRMask 32 32\<rparr>
                           else \<lparr>net_IP = addr, net_Mask = CIDRMask 128 128\<rparr>);
                  (r, k', log) = (if signal \<noteq> Unhealthy then Act_add K a link ipNet k
                                  else Act_del U K a link ipNet k)
              in (r, k', CallLinkByName (ifname a) lr # log)))"

text \<open>
  \<^verbatim>\<open>KernelRouteAction.Act\<close>. The \<^verbatim>\<open>select\<close> takes either the context's expiry or the
  goroutine's answer; \<open>expired\<close> says that it took the expiry. The goroutine is not
  cancelled, so its netlink calls are made in either case.
\<close>

definition KernelRouteAction_Act ::
    "(string \<Rightarrow> string) \<Rightarrow> 'k netlink \<Rightarrow> KernelRouteAction \<Rightarrow> bool \<Rightarrow> State \<Rightarrow> Duration \<Rightarrow> 'k
       \<Rightarrow> 'k act_result" where
  "KernelRouteAction_Act U K a expired signal timeout k =
     (if timeout \<le> 0 then (Some ZeroTimeoutAct, k, [])
      else
        (let (r, k', log) = Act_body U K a signal k
         in if expired then (Some DeadlineExceeded, k', log) else (r, k', log)))"

text \<open>The same signal given twice in a row, neither call expiring.\<close>

definition Act_twice ::
    "(string \<Rightarrow> string) \<Rightarrow> 'k netlink \<Rightarrow> KernelRouteAction \<Rightarrow> State \<Rightarrow> Duration \<Rightarrow> 'k
       \<Rightarrow> (act_error option \<times> act_error option) \<times> 'k \<times> kcall list" where
  "Act_twice U K a signal timeout k =
     (let (r1, k1, log1) = KernelRouteAction_Act U K a False signal timeout k;
          (r2, k2, log2) = KernelRouteAction_Act U K a False signal timeout k1
      in ((r1, r2), k2, log1 @ log2))"

text \<open>
  A netlink call whose outcome lets \<^verbatim>\<open>Act\<close> go on: it succeeded, or an add failed with an
  "exists" error, or a delete failed with a "not found" error.
\<close>

fun tolerated :: "(string \<Rightarrow> string) \<Rightarrow> kcall \<Rightarrow> bool" where
  "tolerated U (CallLinkByName _ r) = (case r of Inl _ \<Rightarrow> False | Inr _ \<Rightarrow> True)"
| "tolerated U (CallAddrAdd _ _ r) = (case r of None \<Rightarrow> True | Some err \<Rightarrow> isExistError err)"
| "tolerated U (CallRouteAdd _ r) = (case r of None \<Rightarrow> True | Some err \<Rightarrow> isExistError err)"
| "tolerated U (CallAddrDel _ _ r) =
     (case r of None \<Rightarrow> True | Some err \<Rightarrow> isNotExistError U err)"
| "tolerated U (CallRouteDel _ r) =
     (case r of None \<Rightarrow> True | Some err \<Rightarrow> isNotExistError U err)"

text \<open>The networks handed to the address calls, and the destinations of the route calls.\<close>

fun addr_nets :: "kcall list \<Rightarrow> IPNet list" where
  "addr_nets [] = []"
| "addr_nets (CallAddrAdd _ n _ # cs) = n # addr_nets cs"
| "addr_nets (CallAddrDel _ n _ # cs) = n # addr_nets cs"
| "addr_nets (_ # cs) = addr_nets cs"

fun route_dsts :: "kcall list \<Rightarrow> IPNet list" where
  "route_dsts [] = []"
| "route_dsts (CallRouteAdd rt _ # cs) = Dst rt # route_dsts cs"
| "route_dsts (CallRouteDel rt _ # cs) = Dst rt # route_dsts cs"
| "route_dsts (_ # cs) = route_dsts cs"

subsection \<open>A small kernel to run the actioner on\<close>

text \<open>
  A kernel that keeps the addresses of each link and the routes as lists, knows the one
  interface \<^verbatim>\<open>lo\<close>, and answers as Linux does: \<^verbatim>\<open>EEXIST\<close> for an address or route that is
  already there, \<^verbatim>\<open>EADDRNOTAVAIL\<close> (99) for deleting an address that is not, \<^verbatim>\<open>ESRCH\<close> for
  deleting a route that is not.
\<close>

record kstate =
  addrs :: "(int \<times> IPNet) list"
  routes :: "Route list"

definition list_kernel :: "kstate netlink" where
  "list_kernel =
     \<lparr>LinkByName = (\<lambda>name k. if name = ''lo'' then Inr \<lparr>Index = 1\<rparr>
                              else Inl (KError [19] ''no such device'')),
      AddrAdd = (\<lambda>l n k. if (Index l, n) \<in> set (addrs k)
                          then (Some (KError [EEXIST] ''file exists''), k)
                          else (None, k\<lparr>addrs := (Index l, n) # addrs k\<rparr>)),
      AddrDel = (\<lambda>l n k. if (Index l, n) \<in> set (addrs k)
                          then (None, k\<lparr>addrs := removeAll (Index l, n) (addrs k)\<rparr>)
                          else (Some (KError [99] ''cannot assign requested address''), k)),
      RouteAdd = (\<lambda>rt k. if rt \<in> set (routes k)
                          then (Some (KError [EEXIST] ''file exists''), k)
                          else (None, k\<lparr>routes := rt # routes k\<rparr>)),
      RouteDel = (\<lambda>rt k. if rt \<in> set (routes k)
                          then (None, k\<lparr>routes := removeAll rt (routes k)\<rparr>)
                          else (Some (KError [ESRCH] ''no such process''), k))\<rparr>"

section \<open>utils: addresses and their strings\<close>




text \<open>\<^verbatim>\<open>strconv.ParseUint(s, 10, 16)\<close>: a non-empty string of decimal digits whose value fits
  sixteen bits; \<open>None\<close> is the error.\<close>

definition isDigit :: "char \<Rightarrow> bool" where
  "isDigit c = (of_char CHR ''0'' \<le> (of_char c :: nat) \<and> (of_char c :: nat) \<le> of_char CHR ''9'')"






















section \<open>Inputs for the worked examples\<close>

definition example_target :: L3L4Addr where
  "example_target = \<lparr>IP = [192, 0, 2, 1], Port = 53, Proto = 17\<rparr>"

text \<open>A port that swallows every datagram: all calls succeed, the read times out.\<close>

definition blackhole_env :: udp_env where
  "blackhole_env =
     \<lparr>dial_err = None, is_UDPConn = True, set_deadline_err = None, proxy_write_err = None,
      send_err = None, read_res = Inl (NetError True True)\<rparr>"

definition bare_checker :: UDPChecker where
  "bare_checker = \<lparr>send = [], receive = [], proxyProto = []\<rparr>"

definition v2_checker :: UDPChecker where
  "v2_checker = \<lparr>send = ''ping'', receive = ''pong'', proxyProto = ''v2''\<rparr>"

definition example_action :: KernelRouteAction where
  "example_action = \<lparr>target = example_target, ifname = ''lo'', withRoute = True\<rparr>"

definition empty_kernel :: kstate where
  "empty_kernel = \<lparr>addrs = [], routes = []\<rparr>"

text \<open>The network of one host: the address with a mask of all ones, four bytes long for an
  IPv4 address (in either form) and sixteen otherwise.\<close>

definition host_net :: "byte list \<Rightarrow> IPNet" where
  "host_net ip =
     \<lparr>net_IP = ip,
      net_Mask = (if To4 ip \<noteq> None then replicate 4 0xff else replicate 16 0xff)\<rparr>"

text \<open>An actioner for the IPv6 address \<^verbatim>\<open>2001:db8::1\<close>.\<close>

definition example_action6 :: KernelRouteAction where
  "example_action6 =
     \<lparr>target = \<lparr>IP = [0x20, 0x01, 0x0d, 0xb8, 0, 0, 0, 0, 0, 0, 0, 0, 0, 0, 0, 1],
                 Port = 80, Proto = 6\<rparr>,
      ifname = ''lo'', withRoute = True\<rparr>"


text \<open>What \<^verbatim>\<open>validate\<close> lets pass for one entry of the params map.\<close>

definition permitted :: "(string \<Rightarrow> string) \<Rightarrow> string \<Rightarrow> string \<Rightarrow> bool" where
  "permitted U k v =
     ((k = ''send'' \<and> v \<noteq> []) \<or> (k = ''receive'' \<and> v \<noteq> [])
      \<or> (k = ''proxy-protocol'' \<and> strings_ToLower U v = ''v2''))"

section \<open>Properties of the udp and udpping probes\<close>

lemmas Check_defs =
  UDPChecker_Check_def Check_conn_def Check_proxy_def Check_send_def Check_read_def

lemmas example_defs =
  example_target_def blackhole_env_def bare_checker_def v2_checker_def example_action_def
  empty_kernel_def

lemma blackhole_run:
  "UDPChecker_Check bare_checker blackhole_env example_target 200000000 =
     ((Healthy, None),
      [EvDial example_target 200000000 None, EvSetDeadline 200000000 None, EvWrite [] None,
       EvReadFrom 0 (Inl (NetError True True)), EvClose])"
  by (simp add: Check_defs example_defs)

text \<open>
  Claim C1. A udp checker whose \<^verbatim>\<open>send\<close> and \<^verbatim>\<open>receive\<close> are both empty, and whose run
  contains a read that failed with a timeout error, returns \<^verbatim>\<open>(Healthy, nil)\<close>.
\<close>

theorem udp_empty_timeout_healthy:
  assumes "send c = []" "receive c = []"
    and "ev \<in> set (snd (UDPChecker_Check c env tgt timeout))" "read_timed_out ev"
  shows "fst (UDPChecker_Check c env tgt timeout) = (Healthy, None)"
  using assms
  by (auto simp: Check_defs Let_def split: if_splits option.splits sum.splits prod.splits)

text \<open>
  The run against a port that swallows every datagram is such a run.
\<close>

theorem udp_empty_timeout_healthy_witness:
  "fst (UDPChecker_Check bare_checker blackhole_env example_target 200000000) = (Healthy, None)"
proof -
  have "EvReadFrom 0 (Inl (NetError True True))
          \<in> set (snd (UDPChecker_Check bare_checker blackhole_env example_target 200000000))"
    by (simp add: blackhole_run)
  moreover have "read_timed_out (EvReadFrom 0 (Inl (NetError True True)))" by simp
  moreover have "send bare_checker = []" "receive bare_checker = []"
    by (simp_all add: bare_checker_def)
  ultimately show ?thesis
    using udp_empty_timeout_healthy by blast
qed

text \<open>
  Claim C3 as it is worded fails at a timeout of zero: the ping check would report
  \<^verbatim>\<open>Unhealthy\<close>, but it is never run and the verdict is \<^verbatim>\<open>Unknown\<close> with an error. It
  also fails when the ping check hands back an error: the udp check is not run and the
  verdict is \<^verbatim>\<open>Unknown\<close> with that error.
\<close>

theorem udpping_counterexample:
  "UDPPingChecker_Check \<lparr>pingChecker = ping_always Unhealthy None, udpChecker = bare_checker\<rparr>
      blackhole_env 0 example_target 0 = ((Unknown, Some ZeroTimeoutUDPPing), [], [])
   \<and> UDPPingChecker_Check
        \<lparr>pingChecker = ping_always Healthy (Some (ForeignError ''ping'')), udpChecker = bare_checker\<rparr>
      blackhole_env 0 example_target 1000000000 =
        ((Unknown, Some (ForeignError ''ping'')), [RanPing example_target 1000000000], [])"
  by (simp add: UDPPingChecker_Check_def ping_always_def)

text \<open>
  Claim C3, amended. With a timeout of zero or less, udpping returns \<^verbatim>\<open>Unknown\<close> with an
  error and runs neither check. With a positive timeout it runs the ping check first,
  with the full timeout. If ping returns an error, the result is \<^verbatim>\<open>Unknown\<close> with that error;
  if ping reports \<^verbatim>\<open>Unhealthy\<close> without an error, the result is \<^verbatim>\<open>(Unhealthy, nil)\<close>; in both
  cases the udp check is not run. Otherwise the udp check runs with the timeout minus the
  time elapsed, and its result is returned.
\<close>

theorem udpping_composition:
  "(timeout \<le> 0 \<longrightarrow>
      UDPPingChecker_Check c env elapsed tgt timeout =
        ((Unknown, Some ZeroTimeoutUDPPing), [], []))
   \<and> (0 < timeout \<longrightarrow>
        hd (fst (snd (UDPPingChecker_Check c env elapsed tgt timeout))) = RanPing tgt timeout
      \<and> (\<forall>st e. pingChecker c tgt timeout = (st, Some e) \<longrightarrow>
            UDPPingChecker_Check c env elapsed tgt timeout =
              ((Unknown, Some e), [RanPing tgt timeout], []))
      \<and> (pingChecker c tgt timeout = (Unhealthy, None) \<longrightarrow>
            UDPPingChecker_Check c env elapsed tgt timeout =
              ((Unhealthy, None), [RanPing tgt timeout], []))
      \<and> (\<forall>st. pingChecker c tgt timeout = (st, None) \<and> st \<noteq> Unhealthy \<longrightarrow>
            UDPPingChecker_Check c env elapsed tgt timeout =
              (fst (UDPChecker_Check (udpChecker c) env tgt (timeout - elapsed)),
               [RanPing tgt timeout, RanUDP tgt (timeout - elapsed)],
               snd (UDPChecker_Check (udpChecker c) env tgt (timeout - elapsed)))))"
  by (auto simp: UDPPingChecker_Check_def Let_def split: prod.splits)

text \<open>
  Both branches at a timeout of 500ms of which ping used 300ms.
\<close>

theorem udpping_composition_witness:
  "UDPPingChecker_Check \<lparr>pingChecker = ping_always Healthy None, udpChecker = bare_checker\<rparr>
      blackhole_env 300000000 example_target 500000000 =
     ((Healthy, None),
      [RanPing example_target 500000000, RanUDP example_target 200000000],
      [EvDial example_target 200000000 None, EvSetDeadline 200000000 None, EvWrite [] None,
       EvReadFrom 0 (Inl (NetError True True)), EvClose])
   \<and> UDPPingChecker_Check \<lparr>pingChecker = ping_always Unhealthy None, udpChecker = bare_checker\<rparr>
      blackhole_env 300000000 example_target 500000000 =
     ((Unhealthy, None), [RanPing example_target 500000000], [])"
  using udpping_composition [of 500000000
      "\<lparr>pingChecker = ping_always Healthy None, udpChecker = bare_checker\<rparr>"
      blackhole_env 300000000 example_target]
    udpping_composition [of 500000000
      "\<lparr>pingChecker = ping_always Unhealthy None, udpChecker = bare_checker\<rparr>"
      blackhole_env 300000000 example_target]
  by (simp add: ping_always_def blackhole_run)

text \<open>
  Claim C4, amended. The udp check returns \<^verbatim>\<open>Unknown\<close> with an error exactly when the
  timeout is zero or less, and then it has made no call on the network: the timeout is
  tested before anything else. For a positive timeout the error is nil, the verdict is never
  \<^verbatim>\<open>Unknown\<close>, and a run in which a network call failed returns \<^verbatim>\<open>(Unhealthy, nil)\<close>, except
  that a read timeout with \<^verbatim>\<open>send\<close> and \<^verbatim>\<open>receive\<close> both empty returns \<^verbatim>\<open>(Healthy, nil)\<close>.
\<close>

theorem udp_unknown_iff_timeout:
  "((\<exists>e. fst (UDPChecker_Check c env tgt timeout) = (Unknown, Some e)) \<longleftrightarrow> timeout \<le> 0)
   \<and> (timeout \<le> 0 \<longrightarrow> snd (UDPChecker_Check c env tgt timeout) = [])
   \<and> (0 < timeout \<longrightarrow>
        snd (fst (UDPChecker_Check c env tgt timeout)) = None
      \<and> fst (fst (UDPChecker_Check c env tgt timeout)) \<noteq> Unknown
      \<and> (dial_err env = None \<and> \<not> is_UDPConn env \<longrightarrow>
            fst (UDPChecker_Check c env tgt timeout) = (Unhealthy, None))
      \<and> (\<forall>ev \<in> set (snd (UDPChecker_Check c env tgt timeout)). failed ev \<longrightarrow>
            fst (UDPChecker_Check c env tgt timeout) =
              (if send c = [] \<and> receive c = [] \<and> read_timed_out ev
               then (Healthy, None) else (Unhealthy, None))))"
  by (auto simp: Check_defs Let_def split: if_splits option.splits sum.splits prod.splits)

text \<open>
  A read timeout with a non-empty \<^verbatim>\<open>send\<close>, and a zero timeout with its empty trace.
\<close>

theorem udp_unknown_iff_timeout_witness:
  "fst (UDPChecker_Check v2_checker blackhole_env example_target 200000000) = (Unhealthy, None)
   \<and> UDPChecker_Check v2_checker blackhole_env example_target 0 =
       ((Unknown, Some ZeroTimeoutUDP), [])"
  using udp_unknown_iff_timeout [of v2_checker blackhole_env example_target 200000000]
    udp_unknown_iff_timeout [of v2_checker blackhole_env example_target 0]
  by (simp add: Check_defs example_defs)

text \<open>
  Claim C4 as it is worded fails on the read timeout of a checker without \<^verbatim>\<open>send\<close> and
  \<^verbatim>\<open>receive\<close>: the timeout is positive, the read fails, and the verdict is \<^verbatim>\<open>Healthy\<close>.
\<close>

theorem udp_read_timeout_counterexample:
  "UDPChecker_Check bare_checker blackhole_env example_target 200000000 =
     ((Healthy, None),
      [EvDial example_target 200000000 None, EvSetDeadline 200000000 None, EvWrite [] None,
       EvReadFrom 0 (Inl (NetError True True)), EvClose])
   \<and> failed (EvReadFrom 0 (Inl (NetError True True)))"
  by (simp add: Check_defs example_defs)

text \<open>
  Claim C8. The v1 preamble is the 15 bytes of \<^verbatim>\<open>PROXY UNKNOWN\<close>, CR, LF; the v2 preamble is
  the 16 bytes of the PROXY protocol v2 LOCAL command; and once the socket is set up, the
  udp check writes the v2 preamble first, before the payload, exactly when its
  \<^verbatim>\<open>proxyProto\<close> is \<^verbatim>\<open>v2\<close>.
\<close>

theorem proxy_preambles:
  "bytes_of_string proxyProtoV1LocalCmd =
     [0x50, 0x52, 0x4F, 0x58, 0x59, 0x20, 0x55, 0x4E, 0x4B, 0x4E, 0x4F, 0x57, 0x4E, 0x0D, 0x0A]
   \<and> length proxyProtoV1LocalCmd = 15
   \<and> proxyProtoV2LocalCmd =
       [0x0D, 0x0A, 0x0D, 0x0A, 0x00, 0x0D, 0x0A, 0x51, 0x55, 0x49, 0x54, 0x0A, 0x20, 0x00, 0x00, 0x00]
   \<and> length proxyProtoV2LocalCmd = 16
   \<and> (0 < timeout \<and> dial_err env = None \<and> is_UDPConn env \<and> set_deadline_err env = None \<longrightarrow>
        written (snd (UDPChecker_Check c env tgt timeout)) =
          (if proxyProto c = ''v2''
           then proxyProtoV2LocalCmd #
                  (if proxy_write_err env = None then [bytes_of_string (send c)] else [])
           else [bytes_of_string (send c)]))"
  by (auto simp: Check_defs Let_def bytes_of_string_def proxyProtoV1LocalCmd_def
        proxyProtoV2LocalCmd_def split: if_splits option.splits sum.splits prod.splits)

text \<open>
  The datagrams written with and without the preamble.
\<close>

theorem proxy_preambles_witness:
  "written (snd (UDPChecker_Check v2_checker blackhole_env example_target 200000000)) =
     [proxyProtoV2LocalCmd, bytes_of_string ''ping'']
   \<and> written (snd (UDPChecker_Check bare_checker blackhole_env example_target 200000000)) = [[]]"
  using proxy_preambles [of 200000000 blackhole_env v2_checker example_target]
    proxy_preambles [of 200000000 blackhole_env bare_checker example_target]
  by (simp add: example_defs bytes_of_string_def)


lemmas CheckMethod_defs =
  CheckMethodNone_def CheckMethodTCP_def CheckMethodUDP_def CheckMethodPing_def
  CheckMethodUDPPing_def CheckMethodHTTP_def CheckMethodAuto_def CheckMethodPassive_def

lemma of_char_lower_byte:
  "(of_char (lower_byte c) :: nat) = (if isUpper c then of_char c + 32 else of_char c)"
  by (simp add: lower_byte_def isUpper_def of_char_of)

lemma lower_byte_eq_iff:
  "lower_byte c = d \<longleftrightarrow> (if isUpper c then (of_char c :: nat) + 32 = of_char d else c = d)"
proof -
  have "lower_byte c = d \<longleftrightarrow> (of_char (lower_byte c) :: nat) = of_char d"
    by (simp only: of_char_eq_iff)
  then show ?thesis
    by (simp add: of_char_lower_byte of_char_eq_iff)
qed

lemma same_letter_lower:
  assumes "same_letter x y"
  shows "lower_byte x = lower_byte y"
proof -
  have "(of_char (lower_byte x) :: nat) = of_char (lower_byte y)"
    using assms by (auto simp: same_letter_def of_char_lower_byte isUpper_def)
  then show ?thesis by (simp only: of_char_eq_iff)
qed

lemma same_letter_lower_byte: "same_letter x (lower_byte x)"
  unfolding same_letter_def
  by (simp add: of_char_lower_byte) (simp add: lower_byte_def)

lemma caseless_eq_lower: "caseless_eq a b \<Longrightarrow> map lower_byte a = map lower_byte b"
  unfolding caseless_eq_def
  by (induction rule: list_all2_induct) (simp_all add: same_letter_lower)

lemma caseless_eq_map_lower: "caseless_eq a (map lower_byte a)"
  unfolding caseless_eq_def
  by (induction a) (simp_all add: same_letter_lower_byte)

lemma lower_v: "lower_byte a = CHR ''v'' \<longleftrightarrow> a = CHR ''v'' \<or> a = CHR ''V''"
proof -
  have "(of_char a :: nat) = 86 \<longleftrightarrow> a = CHR ''V''"
    using of_char_eq_iff [of a "CHR ''V''", where ?'a = nat] by simp
  then show ?thesis
    unfolding lower_byte_eq_iff by (auto simp: isUpper_def)
qed

lemma lower_2: "lower_byte a = CHR ''2'' \<longleftrightarrow> a = CHR ''2''"
  unfolding lower_byte_eq_iff by (auto simp: isUpper_def)

lemma map_lower_v2: "map lower_byte v = ''v2'' \<longleftrightarrow> v = ''v2'' \<or> v = ''V2''"
proof (cases v)
  case Nil then show ?thesis by simp
next
  case (Cons a r)
  note v = Cons
  show ?thesis
  proof (cases r)
    case Nil then show ?thesis using v by simp
  next
    case (Cons b r')
    then show ?thesis using v by (cases r') (auto simp: lower_v lower_2)
  qed
qed


section \<open>Properties of validate and create\<close>

lemma validate_loop_Inr:
  "validate_loop U ps uns = Inr [] \<longleftrightarrow> uns = [] \<and> list_all (\<lambda>(k, v). permitted U k v) ps"
proof (induction ps arbitrary: uns)
  case Nil
  then show ?case by simp
next
  case (Cons p ps)
  obtain k v where p: "p = (k, v)" by (cases p)
  show ?case unfolding p 
    by (simp add: Cons.IH permitted_def ParamProxyProto_def)
qed

lemma validate_iff: "UDPChecker_validate U ps = None \<longleftrightarrow> validate_loop U ps [] = Inr []"
  by (auto simp: UDPChecker_validate_def split: sum.splits)

text \<open>
  Claim C6 as it is worded fails on the empty proxy-protocol value: a params map that
  holds the key \<^verbatim>\<open>proxy-protocol\<close> with the value \<^verbatim>\<open>""\<close> is rejected.
\<close>

theorem validate_empty_proxy_counterexample:
  "UDPChecker_validate id [(''proxy-protocol'', '''')] =
     Some (InvalidParamValue ''proxy-protocol'' '''')"
  by (simp add: UDPChecker_validate_def ParamProxyProto_def strings_ToLower_def isASCII_def)

text \<open>
  Claim C6, amended. \<^verbatim>\<open>validate\<close> succeeds exactly on the params maps whose every entry is a
  \<^verbatim>\<open>send\<close> or \<^verbatim>\<open>receive\<close> with a non-empty value, or a \<^verbatim>\<open>proxy-protocol\<close> whose value is
  \<^verbatim>\<open>v2\<close> after lower-casing (for an ASCII value: \<^verbatim>\<open>v2\<close> or \<^verbatim>\<open>V2\<close>). Any other key makes it
  fail, and so does an empty \<^verbatim>\<open>send\<close> or \<^verbatim>\<open>receive\<close>; the empty proxy-protocol is given by
  leaving the key out.
\<close>

theorem validate_accepts:
  "(UDPChecker_validate U ps = None \<longleftrightarrow> (\<forall>(k, v) \<in> set ps. permitted U k v))
   \<and> (k \<notin> {''send'', ''receive'', ''proxy-protocol''} \<longrightarrow> \<not> permitted U k v)
   \<and> (isASCII v \<longrightarrow> (permitted U ''proxy-protocol'' v \<longleftrightarrow> v = ''v2'' \<or> v = ''V2''))
   \<and> \<not> permitted U ''send'' '''' \<and> \<not> permitted U ''receive'' ''''"
proof -
  have "UDPChecker_validate U ps = None \<longleftrightarrow> (\<forall>(k, v) \<in> set ps. permitted U k v)"
    by (simp add: validate_iff validate_loop_Inr list_all_iff)
  moreover have "isASCII v \<longrightarrow> (permitted U ''proxy-protocol'' v \<longleftrightarrow> v = ''v2'' \<or> v = ''V2'')"
    by (simp add: permitted_def strings_ToLower_def map_lower_v2)
  moreover have "k \<notin> {''send'', ''receive'', ''proxy-protocol''} \<longrightarrow> \<not> permitted U k v"
    by (simp add: permitted_def)
  moreover have "\<not> permitted U ''send'' '''' \<and> \<not> permitted U ''receive'' ''''"
    by (simp add: permitted_def)
  ultimately show ?thesis by blast
qed

text \<open>
  A map that passes and a map with an unrecognised key.
\<close>

theorem validate_accepts_witness:
  "UDPChecker_validate id [(''send'', ''ping''), (''proxy-protocol'', ''V2'')] = None
   \<and> UDPChecker_validate id [(''send'', ''ping''), (''quic'', ''true'')] \<noteq> None"
proof -
  have a: "isASCII ''V2''" by (simp add: isASCII_def)
  have "permitted id ''proxy-protocol'' ''V2''"
    using validate_accepts [of id "[]" "''proxy-protocol''" "''V2''"] a by simp
  moreover have "permitted id ''send'' ''ping''" by (simp add: permitted_def)
  moreover have "\<not> permitted id ''quic'' ''true''"
    using validate_accepts [of id "[]" "''quic''" "''true''"] by simp
  ultimately show ?thesis
    using validate_accepts [of id "[(''send'', ''ping''), (''proxy-protocol'', ''V2'')]" "[]" "[]"]
      validate_accepts [of id "[(''send'', ''ping''), (''quic'', ''true'')]" "[]" "[]"]
    by simp
qed

text \<open>
  Claim C2 against the code. \<^verbatim>\<open>create\<close> allocates \<^verbatim>\<open>checker\<close> but assigns the validated values
  to the fields of its receiver \<^verbatim>\<open>c\<close>: the instance it returns has empty \<^verbatim>\<open>send\<close>, \<^verbatim>\<open>receive\<close>
  and \<^verbatim>\<open>proxyProto\<close>, and the prototype it was called on holds the values.
\<close>

theorem create_returns_blank_instance:
  "UDPChecker_create id bare_checker
      [(''send'', ''ping''), (''receive'', ''pong''), (''proxy-protocol'', ''v2'')] =
     (\<lparr>send = ''ping'', receive = ''pong'', proxyProto = ''v2''\<rparr>,
      Inr \<lparr>send = [], receive = [], proxyProto = []\<rparr>)"
  by (simp add: UDPChecker_create_def UDPChecker_validate_def ParamProxyProto_def
      bare_checker_def strings_ToLower_def isASCII_def lower_byte_def isUpper_def)

section \<open>Properties of the method names\<close>

lemma ToLower_names:
  "strings_ToLower U ''tcp'' = ''tcp''" "strings_ToLower U ''udp'' = ''udp''"
  "strings_ToLower U ''ping'' = ''ping''" "strings_ToLower U ''udpping'' = ''udpping''"
  "strings_ToLower U ''http'' = ''http''" "strings_ToLower U ''none'' = ''none''"
  "strings_ToLower U ''auto'' = ''auto''"
  by (simp_all add: strings_ToLower_def isASCII_def lower_byte_def isUpper_def)

lemma names_lower: "n \<in> set method_names \<Longrightarrow> map lower_byte n = n"
  by (auto simp: method_names_def lower_byte_def isUpper_def)

lemma Method_String_consts:
  "Method_String CheckMethodNone = ''none''" "Method_String CheckMethodTCP = ''tcp''"
  "Method_String CheckMethodUDP = ''udp''" "Method_String CheckMethodPing = ''ping''"
  "Method_String CheckMethodUDPPing = ''udpping''" "Method_String CheckMethodHTTP = ''http''"
  "Method_String CheckMethodAuto = ''auto''" "Method_String CheckMethodPassive = ''passive''"
  by (simp_all add: Method_String_def CheckMethod_defs)

lemma ParseMethod_lowered:
  "ParseMethod U s =
     (if strings_ToLower U s = ''tcp'' then CheckMethodTCP
      else if strings_ToLower U s = ''udp'' then CheckMethodUDP
      else if strings_ToLower U s = ''ping'' then CheckMethodPing
      else if strings_ToLower U s = ''udpping'' then CheckMethodUDPPing
      else if strings_ToLower U s = ''http'' then CheckMethodHTTP
      else if strings_ToLower U s = ''none'' then CheckMethodNone
      else if strings_ToLower U s = ''auto'' then CheckMethodAuto
      else 0)"
  by (simp add: ParseMethod_def Let_def)

lemma ParseMethod_consts:
  "strings_ToLower U s = ''none'' \<Longrightarrow> ParseMethod U s = CheckMethodNone"
  "strings_ToLower U s = ''tcp'' \<Longrightarrow> ParseMethod U s = CheckMethodTCP"
  "strings_ToLower U s = ''udp'' \<Longrightarrow> ParseMethod U s = CheckMethodUDP"
  "strings_ToLower U s = ''ping'' \<Longrightarrow> ParseMethod U s = CheckMethodPing"
  "strings_ToLower U s = ''udpping'' \<Longrightarrow> ParseMethod U s = CheckMethodUDPPing"
  "strings_ToLower U s = ''http'' \<Longrightarrow> ParseMethod U s = CheckMethodHTTP"
  "strings_ToLower U s = ''auto'' \<Longrightarrow> ParseMethod U s = CheckMethodAuto"
  by (simp_all add: ParseMethod_lowered)

lemma ParseMethod_String_consts:
  "ParseMethod U (Method_String CheckMethodNone) = CheckMethodNone"
  "ParseMethod U (Method_String CheckMethodTCP) = CheckMethodTCP"
  "ParseMethod U (Method_String CheckMethodUDP) = CheckMethodUDP"
  "ParseMethod U (Method_String CheckMethodPing) = CheckMethodPing"
  "ParseMethod U (Method_String CheckMethodUDPPing) = CheckMethodUDPPing"
  "ParseMethod U (Method_String CheckMethodHTTP) = CheckMethodHTTP"
  "ParseMethod U (Method_String CheckMethodAuto) = CheckMethodAuto"
  by (simp_all add: Method_String_consts ParseMethod_consts ToLower_names)

lemma ParseMethod_zero_iff:
  "ParseMethod U s = 0 \<longleftrightarrow> strings_ToLower U s \<notin> set method_names"
  by (simp add: ParseMethod_def Let_def method_names_def CheckMethod_defs)

text \<open>
  Claim C10 as it is worded fails on the five bytes of \<^verbatim>\<open>"p\u0130ng"\<close>: the string is not
  ASCII, Go lower-cases \<^verbatim>\<open>U+0130\<close> to the letter i, and \<^verbatim>\<open>ParseMethod\<close> answers
  \<^verbatim>\<open>CheckMethodPing\<close>, although the string is none of the seven names up to the case of
  letters.
\<close>

theorem ParseMethod_dotted_capital_I_counterexample:
  "ParseMethod Map_ToLower [CHR 0x70, CHR 0xC4, CHR 0xB0, CHR 0x6E, CHR 0x67] = CheckMethodPing
   \<and> CheckMethodPing \<noteq> 0
   \<and> \<not> list_ex (caseless_eq [CHR 0x70, CHR 0xC4, CHR 0xB0, CHR 0x6E, CHR 0x67]) method_names"
  by code_simp

text \<open>
  Claim C10, amended. For each of the seven methods \<^verbatim>\<open>ParseMethod (m.String()) = m\<close>; two ASCII
  names that differ only in the case of letters parse to the same method; and
  \<^verbatim>\<open>ParseMethod\<close> returns 0 exactly on the strings whose lower-casing by \<^verbatim>\<open>strings.ToLower\<close>
  is none of the seven names, which for an ASCII string means that it is none of them up
  to case. Any string, ASCII or not, that \<^verbatim>\<open>strings.ToLower\<close> maps onto the name of one of
  the seven methods is parsed as that method.
\<close>

theorem ParseMethod_roundtrip:
  "(\<forall>m \<in> {CheckMethodNone, CheckMethodTCP, CheckMethodUDP, CheckMethodPing,
            CheckMethodUDPPing, CheckMethodHTTP, CheckMethodAuto}.
       ParseMethod U (Method_String m) = m \<and> Method_String m \<in> set method_names)
   \<and> (isASCII a \<and> isASCII b \<and> caseless_eq a b \<longrightarrow> ParseMethod U a = ParseMethod U b)
   \<and> (ParseMethod U s = 0 \<longleftrightarrow> strings_ToLower U s \<notin> set method_names)
   \<and> (isASCII s \<longrightarrow> (ParseMethod U s = 0 \<longleftrightarrow> \<not> (\<exists>n \<in> set method_names. caseless_eq s n)))
   \<and> (\<forall>m \<in> {CheckMethodNone, CheckMethodTCP, CheckMethodUDP, CheckMethodPing,
              CheckMethodUDPPing, CheckMethodHTTP, CheckMethodAuto}.
         strings_ToLower U s = Method_String m \<longrightarrow> ParseMethod U s = m)"
proof -
  have 5: "\<forall>m \<in> {CheckMethodNone, CheckMethodTCP, CheckMethodUDP, CheckMethodPing,
              CheckMethodUDPPing, CheckMethodHTTP, CheckMethodAuto}.
         strings_ToLower U s = Method_String m \<longrightarrow> ParseMethod U s = m"
    using ParseMethod_consts [of U s] by (simp add: Method_String_consts)
  have 1: "\<forall>m \<in> {CheckMethodNone, CheckMethodTCP, CheckMethodUDP, CheckMethodPing,
            CheckMethodUDPPing, CheckMethodHTTP, CheckMethodAuto}.
       ParseMethod U (Method_String m) = m \<and> Method_String m \<in> set method_names"
    using ParseMethod_String_consts [of U]
    by (simp add: Method_String_consts method_names_def)
  have 2: "isASCII a \<and> isASCII b \<and> caseless_eq a b \<longrightarrow> ParseMethod U a = ParseMethod U b"
  proof
    assume h: "isASCII a \<and> isASCII b \<and> caseless_eq a b"
    then have "strings_ToLower U a = strings_ToLower U b"
      using caseless_eq_lower [of a b] by (simp add: strings_ToLower_def)
    then show "ParseMethod U a = ParseMethod U b"
      by (simp add: ParseMethod_def)
  qed
  have 3: "ParseMethod U s = 0 \<longleftrightarrow> strings_ToLower U s \<notin> set method_names"
    by (rule ParseMethod_zero_iff)
  have 4: "isASCII s \<longrightarrow> (ParseMethod U s = 0 \<longleftrightarrow> \<not> (\<exists>n \<in> set method_names. caseless_eq s n))"
  proof
    assume s: "isASCII s"
    have "map lower_byte s \<in> set method_names \<longleftrightarrow> (\<exists>n \<in> set method_names. caseless_eq s n)"
    proof
      assume "map lower_byte s \<in> set method_names"
      then show "\<exists>n \<in> set method_names. caseless_eq s n"
        using caseless_eq_map_lower [of s] by blast
    next
      assume "\<exists>n \<in> set method_names. caseless_eq s n"
      then obtain n where n: "n \<in> set method_names" "caseless_eq s n" by blast
      then have "map lower_byte s = n"
        using caseless_eq_lower [of s n] names_lower [of n] by simp
      then show "map lower_byte s \<in> set method_names" using n by simp
    qed
    then show "ParseMethod U s = 0 \<longleftrightarrow> \<not> (\<exists>n \<in> set method_names. caseless_eq s n)"
      using s by (simp add: ParseMethod_zero_iff strings_ToLower_def)
  qed
  from 1 2 3 4 5 show ?thesis by blast
qed

text \<open>
  A round trip, a name in mixed case, and a name outside the seven.
\<close>

theorem ParseMethod_roundtrip_witness:
  "ParseMethod id (Method_String CheckMethodUDPPing) = CheckMethodUDPPing
   \<and> ParseMethod id ''UdpPING'' = ParseMethod id ''udpping''
   \<and> ParseMethod id ''passive'' = 0"
proof -
  have "isASCII ''UdpPING'' \<and> isASCII ''udpping'' \<and> caseless_eq ''UdpPING'' ''udpping''"
    by (simp add: isASCII_def caseless_eq_def same_letter_def isUpper_def)
  moreover have "strings_ToLower id ''passive'' \<notin> set method_names"
    by (simp add: strings_ToLower_def isASCII_def lower_byte_def isUpper_def method_names_def)
  ultimately show ?thesis
    using ParseMethod_roundtrip [of id "''UdpPING''" "''udpping''" "''passive''"]
    by simp
qed


section \<open>Properties of the KernelRouteAddDel actioner\<close>

lemma CIDRMask_32: "CIDRMask 32 32 = replicate 4 0xff"
  by (simp add: CIDRMask_def eval_nat_numeral)

lemma CIDRMask_128: "CIDRMask 128 128 = replicate 16 0xff"
  by (simp add: CIDRMask_def eval_nat_numeral)

lemma Act_add_ok:
  "list_all (tolerated U) (snd (snd (Act_add K a link n k))) \<Longrightarrow> fst (Act_add K a link n k) = None"
  by (auto simp: Act_add_def Act_add_route_def Let_def split: prod.splits option.splits if_splits)

lemma Act_del_ok:
  "list_all (tolerated U) (snd (snd (Act_del U K a link n k))) \<Longrightarrow> fst (Act_del U K a link n k) = None"
  by (auto simp: Act_del_def Act_del_route_def Let_def split: prod.splits option.splits if_splits)

lemma Act_body_ok:
  assumes "list_all (tolerated U) (snd (snd (Act_body U K a signal k)))"
  shows "fst (Act_body U K a signal k) = None"
proof (cases "LinkByName K (ifname a) k")
  case (Inl e)
  then show ?thesis using assms by (simp add: Act_body_def)
next
  case (Inr link)
  then show ?thesis using assms
    by (auto simp add: Act_body_def Let_def split_beta split: if_splits
          intro: Act_add_ok Act_del_ok)
qed

lemma Act_log: "0 < timeout \<Longrightarrow>
  snd (snd (KernelRouteAction_Act U K a expired signal timeout k)) = snd (snd (Act_body U K a signal k))"
  by (simp add: KernelRouteAction_Act_def split_beta)

lemma Act_ok:
  "0 < timeout \<Longrightarrow> \<not> expired \<Longrightarrow>
   list_all (tolerated U) (snd (snd (KernelRouteAction_Act U K a expired signal timeout k))) \<Longrightarrow>
   fst (KernelRouteAction_Act U K a expired signal timeout k) = None"
  using Act_body_ok [of U K a signal k]
  by (simp add: KernelRouteAction_Act_def split_beta)

text \<open>
  Claim C5. With a positive timeout, a call of \<^verbatim>\<open>Act\<close> that does not expire, and in which
  every netlink call either succeeded or failed with an error that is tolerated (an
  "exists" error of an add, a "not found" error of a delete), returns success; and when
  the same signal is given twice in a row and every netlink call of the two runs is of
  that kind, both calls return success. A failed add is tolerated exactly when its error
  carries \<^verbatim>\<open>EEXIST\<close> (17); a failed delete exactly when its error carries \<^verbatim>\<open>ENOENT\<close> (2) or
  \<^verbatim>\<open>ESRCH\<close> (3) or its lower-cased message contains "cannot assign requested address".
\<close>

theorem Act_same_signal_twice:
  assumes "0 < timeout"
  shows "(\<not> expired
          \<and> list_all (tolerated U) (snd (snd (KernelRouteAction_Act U K a expired signal timeout k)))
          \<longrightarrow> fst (KernelRouteAction_Act U K a expired signal timeout k) = None)
       \<and> (list_all (tolerated U) (snd (snd (Act_twice U K a signal timeout k)))
          \<longrightarrow> fst (Act_twice U K a signal timeout k) = (None, None))
       \<and> (tolerated U (CallAddrAdd link n (Some err)) \<longleftrightarrow> 17 \<in> set (errnos err))
       \<and> (tolerated U (CallRouteAdd rt (Some err)) \<longleftrightarrow> 17 \<in> set (errnos err))
       \<and> (tolerated U (CallAddrDel link n (Some err)) \<longleftrightarrow>
              2 \<in> set (errnos err) \<or> 3 \<in> set (errnos err)
            \<or> strings_Contains (strings_ToLower U (Error err))
                  ''cannot assign requested address'')
       \<and> (tolerated U (CallRouteDel rt (Some err)) \<longleftrightarrow>
              2 \<in> set (errnos err) \<or> 3 \<in> set (errnos err)
            \<or> strings_Contains (strings_ToLower U (Error err))
                  ''cannot assign requested address'')"
proof -
  have classes:
    "(tolerated U (CallAddrAdd link n (Some err)) \<longleftrightarrow> 17 \<in> set (errnos err))
     \<and> (tolerated U (CallRouteAdd rt (Some err)) \<longleftrightarrow> 17 \<in> set (errnos err))
     \<and> (tolerated U (CallAddrDel link n (Some err)) \<longleftrightarrow>
            2 \<in> set (errnos err) \<or> 3 \<in> set (errnos err)
          \<or> strings_Contains (strings_ToLower U (Error err))
                ''cannot assign requested address'')
     \<and> (tolerated U (CallRouteDel rt (Some err)) \<longleftrightarrow>
            2 \<in> set (errnos err) \<or> 3 \<in> set (errnos err)
          \<or> strings_Contains (strings_ToLower U (Error err))
                ''cannot assign requested address'')"
    by (simp add: isExistError_def isNotExistError_def EEXIST_def ENOENT_def ESRCH_def)
  have "list_all (tolerated U) (snd (snd (Act_twice U K a signal timeout k)))
          \<longrightarrow> fst (Act_twice U K a signal timeout k) = (None, None)"
    using assms Act_ok [of timeout False U K a signal]
    by (simp add: Act_twice_def split_beta)
  then show ?thesis using assms Act_ok [of timeout expired U K a signal k] classes by blast
qed

lemma up_twice_run:
  "Act_twice id list_kernel example_action Healthy 2000000000 empty_kernel =
    ((None, None),
     \<lparr>addrs = [(1, host_net (IP example_target))],
        routes = [\<lparr>LinkIndex = 1, Dst = host_net (IP example_target)\<rparr>]\<rparr>,
     [CallLinkByName ''lo'' (Inr \<lparr>Index = 1\<rparr>),
      CallAddrAdd \<lparr>Index = 1\<rparr> (host_net (IP example_target)) None,
      CallRouteAdd \<lparr>LinkIndex = 1, Dst = host_net (IP example_target)\<rparr> None,
      CallLinkByName ''lo'' (Inr \<lparr>Index = 1\<rparr>),
      CallAddrAdd \<lparr>Index = 1\<rparr> (host_net (IP example_target)) (Some (KError [EEXIST] ''file exists'')),
      CallRouteAdd \<lparr>LinkIndex = 1, Dst = host_net (IP example_target)\<rparr> (Some (KError [EEXIST] ''file exists''))])"
  by (simp add: Act_twice_def KernelRouteAction_Act_def Act_body_def Act_add_def Act_add_route_def list_kernel_def
       example_action_def example_target_def empty_kernel_def To4_def CIDRMask_32 host_net_def Let_def
       isExistError_def)

lemma down_twice_log:
  "snd (snd (Act_twice id list_kernel example_action Unhealthy 2000000000 empty_kernel)) =
     [CallLinkByName ''lo'' (Inr \<lparr>Index = 1\<rparr>),
      CallAddrDel \<lparr>Index = 1\<rparr> (host_net (IP example_target))
        (Some (KError [99] ''cannot assign requested address'')),
      CallRouteDel \<lparr>LinkIndex = 1, Dst = host_net (IP example_target)\<rparr>
        (Some (KError [ESRCH] ''no such process'')),
      CallLinkByName ''lo'' (Inr \<lparr>Index = 1\<rparr>),
      CallAddrDel \<lparr>Index = 1\<rparr> (host_net (IP example_target))
        (Some (KError [99] ''cannot assign requested address'')),
      CallRouteDel \<lparr>LinkIndex = 1, Dst = host_net (IP example_target)\<rparr>
        (Some (KError [ESRCH] ''no such process''))]"
  by (simp add: Act_twice_def KernelRouteAction_Act_def Act_body_def Act_del_def Act_del_route_def list_kernel_def
       example_action_def example_target_def empty_kernel_def To4_def CIDRMask_32 host_net_def Let_def
       isNotExistError_def strings_ToLower_def isASCII_def lower_byte_def isUpper_def
       ENOENT_def ESRCH_def)

lemma tolerated_absent:
  "isNotExistError id (KError [99] ''cannot assign requested address'')"
  "isNotExistError id (KError [ESRCH] ''no such process'')"
  "isExistError (KError [EEXIST] ''file exists'')"
  by (simp_all add: isNotExistError_def isExistError_def strings_ToLower_def isASCII_def
        lower_byte_def isUpper_def EEXIST_def ENOENT_def ESRCH_def)

text \<open>
  Up twice and Down twice on the small kernel, starting with no address and no route: the
  second Up meets \<^verbatim>\<open>EEXIST\<close> twice, each Down meets "cannot assign requested address" and
  \<^verbatim>\<open>ESRCH\<close>.
\<close>

theorem Act_same_signal_twice_witness:
  "fst (Act_twice id list_kernel example_action Healthy 2000000000 empty_kernel) = (None, None)
   \<and> fst (Act_twice id list_kernel example_action Unhealthy 2000000000 empty_kernel) = (None, None)"
proof -
  have "list_all (tolerated id)
          (snd (snd (Act_twice id list_kernel example_action Healthy 2000000000 empty_kernel)))"
    by (simp add: up_twice_run tolerated_absent)
  moreover have "list_all (tolerated id)
          (snd (snd (Act_twice id list_kernel example_action Unhealthy 2000000000 empty_kernel)))"
    by (simp add: down_twice_log tolerated_absent)
  ultimately show ?thesis
    using Act_same_signal_twice [of 2000000000 False id list_kernel example_action Healthy empty_kernel]
      Act_same_signal_twice [of 2000000000 False id list_kernel example_action Unhealthy empty_kernel]
    by simp
qed


lemma Act_body_host_net:
  "Act_body U K a signal k =
     (case LinkByName K (ifname a) k of
        Inl err \<Rightarrow> (Some (FailedLinkByName err), k, [CallLinkByName (ifname a) (Inl err)])
      | Inr link \<Rightarrow>
          (let res = (if signal \<noteq> Unhealthy then Act_add K a link (host_net (IP (target a))) k
                      else Act_del U K a link (host_net (IP (target a))) k)
           in (fst res, fst (snd res), CallLinkByName (ifname a) (Inr link) # snd (snd res))))"
  by (simp add: Act_body_def Let_def split_beta host_net_def CIDRMask_32 CIDRMask_128
        split: sum.splits)

lemma Act_add_nets:
  "addr_nets (snd (snd (Act_add K a link n k))) = [n] \<and>
   route_dsts (snd (snd (Act_add K a link n k))) =
     (if withRoute a \<and> tolerated U (hd (snd (snd (Act_add K a link n k)))) then [n] else [])"
  by (auto simp: Act_add_def Act_add_route_def Let_def split_beta split: option.splits)

lemma Act_del_nets:
  "addr_nets (snd (snd (Act_del U K a link n k))) = [n] \<and>
   route_dsts (snd (snd (Act_del U K a link n k))) =
     (if withRoute a \<and> tolerated U (hd (snd (snd (Act_del U K a link n k)))) then [n] else [])"
  by (auto simp: Act_del_def Act_del_route_def Let_def split_beta split: option.splits)

lemma Act_add_nonempty: "snd (snd (Act_add K a link n k)) \<noteq> []"
  by (auto simp: Act_add_def Act_add_route_def Let_def split_beta split: option.splits)

lemma Act_del_nonempty: "snd (snd (Act_del U K a link n k)) \<noteq> []"
  by (auto simp: Act_del_def Act_del_route_def Let_def split_beta split: option.splits)

text \<open>
  Claim C7. Once the link is found, \<^verbatim>\<open>Act\<close> makes exactly one address call, on the target IP
  with a mask of four bytes \<^verbatim>\<open>ff\<close> (/32) if the IP is IPv4 and of sixteen bytes \<^verbatim>\<open>ff\<close> (/128)
  otherwise; and with \<^verbatim>\<open>withRoute\<close>, when the address call was tolerated, the one route call
  has exactly that network as its destination. Without \<^verbatim>\<open>withRoute\<close> there is no route
  call.
\<close>

theorem Act_host_route_net:
  assumes "0 < timeout" "LinkByName K (ifname a) k = Inr link"
  shows "addr_nets (snd (snd (KernelRouteAction_Act U K a expired signal timeout k))) =
           [\<lparr>net_IP = IP (target a),
             net_Mask = (if To4 (IP (target a)) \<noteq> None then [0xff, 0xff, 0xff, 0xff]
                         else replicate 16 0xff)\<rparr>]
       \<and> route_dsts (snd (snd (KernelRouteAction_Act U K a expired signal timeout k))) =
           (if withRoute a
               \<and> tolerated U (snd (snd (KernelRouteAction_Act U K a expired signal timeout k)) ! 1)
            then addr_nets (snd (snd (KernelRouteAction_Act U K a expired signal timeout k)))
            else [])"
proof -
  have h: "host_net (IP (target a)) =
      \<lparr>net_IP = IP (target a),
        net_Mask = (if To4 (IP (target a)) \<noteq> None then [0xff, 0xff, 0xff, 0xff]
                    else replicate 16 0xff)\<rparr>"
    by (simp add: host_net_def eval_nat_numeral)
  have "addr_nets (snd (snd (KernelRouteAction_Act U K a expired signal timeout k))) =
           [host_net (IP (target a))]
       \<and> route_dsts (snd (snd (KernelRouteAction_Act U K a expired signal timeout k))) =
           (if withRoute a
               \<and> tolerated U (snd (snd (KernelRouteAction_Act U K a expired signal timeout k)) ! 1)
            then addr_nets (snd (snd (KernelRouteAction_Act U K a expired signal timeout k)))
            else [])"
  proof (cases "signal \<noteq> Unhealthy")
    case True
    then show ?thesis
      using assms Act_add_nonempty [of K a link "host_net (IP (target a))" k]
      by (simp add: Act_log Act_body_host_net Let_def Act_add_nets [where U = U] hd_conv_nth)
  next
    case False
    then show ?thesis
      using assms Act_del_nonempty [of U K a link "host_net (IP (target a))" k]
      by (simp add: Act_log Act_body_host_net Let_def Act_del_nets hd_conv_nth)
  qed
  then show ?thesis by (simp only: h)
qed

text \<open>
  An IPv4 target added with its route, and an IPv6 target removed.
\<close>

theorem Act_host_route_net_witness:
  "addr_nets (snd (snd (KernelRouteAction_Act id list_kernel example_action False Healthy
       2000000000 empty_kernel))) =
     [\<lparr>net_IP = [192, 0, 2, 1], net_Mask = [0xff, 0xff, 0xff, 0xff]\<rparr>]
   \<and> route_dsts (snd (snd (KernelRouteAction_Act id list_kernel example_action False Healthy
       2000000000 empty_kernel))) =
     [\<lparr>net_IP = [192, 0, 2, 1], net_Mask = [0xff, 0xff, 0xff, 0xff]\<rparr>]
   \<and> addr_nets (snd (snd (KernelRouteAction_Act id list_kernel example_action6 False Unhealthy
       2000000000 empty_kernel))) =
     [\<lparr>net_IP = [0x20, 0x01, 0x0d, 0xb8, 0, 0, 0, 0, 0, 0, 0, 0, 0, 0, 0, 1],
       net_Mask = replicate 16 0xff\<rparr>]"
proof -
  have l: "LinkByName list_kernel (ifname example_action) empty_kernel = Inr \<lparr>Index = 1\<rparr>"
    "LinkByName list_kernel (ifname example_action6) empty_kernel = Inr \<lparr>Index = 1\<rparr>"
    by (simp_all add: list_kernel_def example_action_def example_action6_def)
  have t: "withRoute example_action"
    "tolerated id (snd (snd (KernelRouteAction_Act id list_kernel example_action False Healthy
       2000000000 empty_kernel)) ! 1)"
    by (simp_all add: KernelRouteAction_Act_def Act_body_def Act_add_def Act_add_route_def list_kernel_def
       example_action_def example_target_def empty_kernel_def To4_def Let_def)
  have ip: "To4 (IP (target example_action)) \<noteq> None" "To4 (IP (target example_action6)) = None"
    "IP (target example_action) = [192, 0, 2, 1]"
    "IP (target example_action6) = [0x20, 0x01, 0x0d, 0xb8, 0, 0, 0, 0, 0, 0, 0, 0, 0, 0, 0, 1]"
    by (simp_all add: example_action_def example_action6_def example_target_def To4_def)
  show ?thesis
    using Act_host_route_net [where timeout = 2000000000 and K = list_kernel
        and a = example_action and k = empty_kernel and link = "\<lparr>Index = 1\<rparr>" and U = id
        and expired = False and signal = Healthy]
      Act_host_route_net [where timeout = 2000000000 and K = list_kernel
        and a = example_action6 and k = empty_kernel and link = "\<lparr>Index = 1\<rparr>" and U = id
        and expired = False and signal = Unhealthy]
      l t ip
    by simp
qed


section \<open>Properties of the address strings\<close>

lemma isDigit_not_sep:
  "isDigit c \<Longrightarrow> c \<noteq> CHR ''-'' \<and> c \<noteq> CHR ''.'' \<and> c \<noteq> CHR '':'' \<and> c \<noteq> CHR ''%''"
  by (auto simp: isDigit_def)

































end
